theory Spec2Isabelle
  imports Complex_Main "HOL-Library.Word"
begin

section \<open>CutyCapt: the capture orchestration of \<open>cutycapt.cpp\<close>\<close>

text \<open>
  The development embeds the slots and callbacks of \<open>CutyEnginePage\<close>, \<open>CutyPage\<close>
  and \<open>CutyCapt\<close> as functions on one state record. Qt itself (the event loop, the
  widget, timers, the engine's asynchronous operations) is not part of the repository;
  it appears as plain state: the one-shot timers that are armed, the asynchronous
  requests that are outstanding, the exit code handed to \<open>QApplication::exit\<close>, and a
  log of the calls the program makes to the outside.
\<close>

subsection \<open>Output formats and the extension table\<close>

datatype OutputFormat =
    SvgFormat | PdfFormat | PsFormat | InnerTextFormat | HtmlFormat
  | PngFormat | JpegFormat | MngFormat | TiffFormat | GifFormat
  | BmpFormat | PpmFormat | XbmFormat | XpmFormat | OtherFormat

record CutyExt =
  ext_id :: OutputFormat
  ext_extension :: string
  ext_identifier :: string

definition mkExt :: "OutputFormat \<Rightarrow> string \<Rightarrow> string \<Rightarrow> CutyExt" where
  "mkExt f e i = \<lparr>ext_id = f, ext_extension = e, ext_identifier = i\<rparr>"

definition CutyExtMap :: "CutyExt list" where
  "CutyExtMap =
    [ mkExt SvgFormat ''.svg'' ''svg'',     mkExt PdfFormat ''.pdf'' ''pdf'',
      mkExt PsFormat ''.ps'' ''ps'',        mkExt InnerTextFormat ''.txt'' ''itext'',
      mkExt HtmlFormat ''.html'' ''html'',  mkExt JpegFormat ''.jpeg'' ''jpeg'',
      mkExt PngFormat ''.png'' ''png'',     mkExt MngFormat ''.mng'' ''mng'',
      mkExt TiffFormat ''.tiff'' ''tiff'',  mkExt GifFormat ''.gif'' ''gif'',
      mkExt BmpFormat ''.bmp'' ''bmp'',     mkExt PpmFormat ''.ppm'' ''ppm'',
      mkExt XbmFormat ''.xbm'' ''xbm'',     mkExt XpmFormat ''.xpm'' ''xpm'',
      mkExt OtherFormat '''' '''' ]"

text \<open>
  The three loops over the table all have the form
  \<^verbatim>\<open>for (ix = 0; CutyExtMap[ix].id != OtherFormat; ++ix)\<close>: they walk the entries in
  order and stop at the sentinel. \<open>identifier_of\<close> is the loop of \<open>saveSnapshot\<close>, which
  leaves at the first entry of the format (\<open>None\<close> is the null pointer).
\<close>

fun identifier_of :: "CutyExt list \<Rightarrow> OutputFormat \<Rightarrow> string option" where
  "identifier_of [] f = None"
| "identifier_of (e # es) f =
     (if ext_id e = OtherFormat then None
      else if ext_id e = f then Some (ext_identifier e)
      else identifier_of es f)"

subsection \<open>Sizes\<close>

type_synonym QSize = "int \<times> int"

text \<open>\<open>QSize()\<close> is the invalid size; \<open>QSize::isEmpty\<close> holds when a side is below 1.\<close>

definition QSize_default :: QSize where
  "QSize_default = (-1, -1)"

definition QSize_isEmpty :: "QSize \<Rightarrow> bool" where
  "QSize_isEmpty sz = (fst sz < 1 \<or> snd sz < 1)"

definition QWIDGETSIZE_MAX :: int where
  "QWIDGETSIZE_MAX = 16777215"

text \<open>\<open>QSizeF::toSize\<close> rounds each side to the nearest integer (used on positive sides only).\<close>

definition QSizeF_toSize :: "rat \<times> rat \<Rightarrow> QSize" where
  "QSizeF_toSize sz = (\<lfloor>fst sz + 1 / 2\<rfloor>, \<lfloor>snd sz + 1 / 2\<rfloor>)"

subsection \<open>What the program does to the outside\<close>

datatype effect =
    Cerr string
  | Clog string
  | QDebug string
  | SaveSnapshot OutputFormat QSize
  | SvgRender string QSize
  | PrintToPdf string
  | ToPlainText string
  | ToHtml string
  | PixmapSave string "string option"
  | ImageSave string "string option" QSize bool
  | FileWrite string string

subsection \<open>The state\<close>

record cuty =
  mOutput :: string
  mDelay :: int
  mFormat :: OutputFormat
  mSawDocumentComplete :: bool
  mSawGeometryChange :: bool
  mViewSize :: QSize
  mInsecure :: bool
  mSmooth :: bool
  mSilent :: bool
  mTimeoutTimer :: bool
  mAlertString :: string
  mPrintAlerts :: bool
  page_mInsecure :: bool
  mCutyCapt :: bool
  widget_size :: QSize
  widget_minimumSize :: QSize
  widget_maximumSize :: QSize
  grabIsNull :: bool
  singleShots :: "int list"
  jsPending :: nat
  pdfPending :: "string list"
  plainTextPending :: "string list"
  htmlPending :: "string list"
  exitCode :: "int option"
  effects :: "effect list"

text \<open>
  \<open>mTimeoutTimer\<close> is whether the global timer is active; \<open>mCutyCapt\<close> is whether the
  engine page's back pointer is set; \<open>grabIsNull\<close> is the environment's answer to
  \<open>QWidget::grab\<close>. \<open>singleShots\<close> holds the intervals of the armed
  \<open>QTimer::singleShot(_, this, SLOT(Delayed()))\<close> timers, \<open>jsPending\<close> counts the
  \<open>runJavaScript\<close> callbacks not yet delivered, and the three other pending lists hold the
  output paths captured by the outstanding \<open>printToPdf\<close>, \<open>toPlainText\<close> and \<open>toHtml\<close>
  requests.
\<close>

definition emit :: "effect \<Rightarrow> cuty \<Rightarrow> cuty" where
  "emit e s = s\<lparr>effects := effects s @ [e]\<rparr>"

definition QApplication_exit :: "int \<Rightarrow> cuty \<Rightarrow> cuty" where
  "QApplication_exit c s = s\<lparr>exitCode := Some c\<rparr>"

definition QApplication_quit :: "cuty \<Rightarrow> cuty" where
  "QApplication_quit s = QApplication_exit 0 s"

definition singleShot :: "int \<Rightarrow> cuty \<Rightarrow> cuty" where
  "singleShot msec s = s\<lparr>singleShots := singleShots s @ [msec]\<rparr>"

subsection \<open>The widget\<close>

text \<open>
  \<open>QWidget::setMinimumSize\<close> clamps each side into \<open>0 .. QWIDGETSIZE_MAX\<close> and grows a
  widget that is smaller; \<open>QWidget::resize\<close> keeps the size between the minimum and the
  maximum size.
\<close>

definition bound_int :: "int \<Rightarrow> int \<Rightarrow> int \<Rightarrow> int" where
  "bound_int lo x hi = max lo (min hi x)"

definition setMinimumSize :: "QSize \<Rightarrow> cuty \<Rightarrow> cuty" where
  "setMinimumSize sz s =
     (let mw = bound_int 0 (fst sz) QWIDGETSIZE_MAX;
          mh = bound_int 0 (snd sz) QWIDGETSIZE_MAX
      in s\<lparr>widget_minimumSize := (mw, mh),
            widget_size := (max mw (fst (widget_size s)), max mh (snd (widget_size s)))\<rparr>)"

definition setMaximumSize :: "QSize \<Rightarrow> cuty \<Rightarrow> cuty" where
  "setMaximumSize sz s =
     (let mw = bound_int 0 (fst sz) QWIDGETSIZE_MAX;
          mh = bound_int 0 (snd sz) QWIDGETSIZE_MAX
      in s\<lparr>widget_maximumSize := (mw, mh),
            widget_size := (min mw (fst (widget_size s)), min mh (snd (widget_size s)))\<rparr>)"

definition resize :: "QSize \<Rightarrow> cuty \<Rightarrow> cuty" where
  "resize sz s =
     s\<lparr>widget_size :=
         (bound_int (fst (widget_minimumSize s)) (fst sz) (fst (widget_maximumSize s)),
          bound_int (snd (widget_minimumSize s)) (snd sz) (snd (widget_maximumSize s)))\<rparr>"

subsection \<open>CutyEnginePage\<close>

datatype cert_action = AcceptCertificate | NoAction

text \<open>\<open>handleCertificateError\<close>: the argument is \<open>error.isOverridable()\<close>.\<close>

definition handleCertificateError :: "bool \<Rightarrow> cuty \<Rightarrow> cert_action" where
  "handleCertificateError isOverridable s =
     (if \<not> page_mInsecure s then NoAction
      else if isOverridable then AcceptCertificate
      else NoAction)"

definition javaScriptAlert :: "string \<Rightarrow> cuty \<Rightarrow> cuty" where
  "javaScriptAlert msg s =
     (let s1 = (if mPrintAlerts s then emit (QDebug msg) s else s)
      in if mAlertString s1 \<noteq> [] \<and> msg = mAlertString s1 \<and> mCutyCapt s1
         then singleShot 10 s1
         else s1)"

definition javaScriptConfirm :: "string \<Rightarrow> bool" where
  "javaScriptConfirm msg = True"

text \<open>
  \<open>javaScriptPrompt\<close>: \<open>result\<close> is the out-pointer, \<open>None\<close> when it is null; the function
  gives back its return value and what the pointer then holds.
\<close>

definition javaScriptPrompt :: "string \<Rightarrow> string \<Rightarrow> string option \<Rightarrow> bool \<times> string option" where
  "javaScriptPrompt msg defaultValue result =
     (True, (case result of None \<Rightarrow> None | Some _ \<Rightarrow> Some []))"

subsection \<open>CutyCapt\<close>

text \<open>
  The two tests of \<open>saveSnapshot\<close> under the comment ``Make sure we have some non-zero
  size'': the widget's size when the view size is empty, then 800 by 600.
\<close>

definition nonzero_size :: "cuty \<Rightarrow> cuty" where
  "nonzero_size s =
     (let s1 = (if QSize_isEmpty (mViewSize s) then s\<lparr>mViewSize := widget_size s\<rparr> else s)
      in if QSize_isEmpty (mViewSize s1) then s1\<lparr>mViewSize := (800, 600)\<rparr> else s1)"

text \<open>
  \<open>saveSnapshot\<close>. The \<open>SaveSnapshot\<close> entry of the log marks the invocation, with the
  format and the size the writer goes on to use.
\<close>

definition saveSnapshot :: "cuty \<Rightarrow> cuty" where
  "saveSnapshot s =
     (let format = identifier_of CutyExtMap (mFormat s);
          out = mOutput s;
          s1 = nonzero_size (s\<lparr>mTimeoutTimer := False\<rparr>);
          s2 = emit (SaveSnapshot (mFormat s1) (mViewSize s1)) s1
      in case mFormat s of
           SvgFormat \<Rightarrow> QApplication_quit (emit (SvgRender out (mViewSize s2)) s2)
         | PdfFormat \<Rightarrow> (emit (PrintToPdf out) s2)\<lparr>pdfPending := pdfPending s2 @ [out]\<rparr>
         | PsFormat \<Rightarrow> (emit (PrintToPdf out) s2)\<lparr>pdfPending := pdfPending s2 @ [out]\<rparr>
         | InnerTextFormat \<Rightarrow>
             (emit (ToPlainText out) s2)\<lparr>plainTextPending := plainTextPending s2 @ [out]\<rparr>
         | HtmlFormat \<Rightarrow> (emit (ToHtml out) s2)\<lparr>htmlPending := htmlPending s2 @ [out]\<rparr>
         | _ \<Rightarrow>
             QApplication_quit
               (if grabIsNull s2
                then emit (ImageSave out format (mViewSize s2) (mSmooth s2)) s2
                else emit (PixmapSave out format) s2))"

text \<open>
  The completion lambdas of \<open>toPlainText\<close> and \<open>toHtml\<close>: \<open>out\<close> is the captured path,
  \<open>opens\<close> is whether \<open>QFile::open\<close> succeeds.
\<close>

definition text_callback :: "string \<Rightarrow> string \<Rightarrow> bool \<Rightarrow> cuty \<Rightarrow> cuty" where
  "text_callback out result opens s =
     QApplication_quit (if opens then emit (FileWrite out result) s else s)"

definition TryDelayedRender :: "cuty \<Rightarrow> cuty" where
  "TryDelayedRender s =
     (if mAlertString s \<noteq> [] then s
      else if mDelay s > 0 then singleShot (mDelay s) s
      else saveSnapshot s)"

text \<open>
  The lambda handed to \<open>runJavaScript\<close>: \<open>w\<close> and \<open>h\<close> are what \<open>toInt\<close> makes of the
  script's answer (0 when there is none).
\<close>

definition runJavaScript_callback :: "int \<Rightarrow> int \<Rightarrow> cuty \<Rightarrow> cuty" where
  "runJavaScript_callback w h s =
     (let s1 = (if w > 0 \<and> h > 0
                then (resize (w, h) (setMinimumSize (w, h) (s\<lparr>mViewSize := (w, h)\<rparr>)))
                       \<lparr>mSawGeometryChange := True\<rparr>
                else s\<lparr>mViewSize := widget_size s,
                       mSawGeometryChange := \<not> QSize_isEmpty (widget_size s)\<rparr>)
      in if mSawDocumentComplete s1 \<and> mSawGeometryChange s1 then TryDelayedRender s1 else s1)"

definition updateViewportToContentThenMaybeCapture :: "cuty \<Rightarrow> cuty" where
  "updateViewportToContentThenMaybeCapture s =
     (if mAlertString s \<noteq> [] then s
      else s\<lparr>jsPending := Suc (jsPending s)\<rparr>)"

definition DocumentComplete :: "bool \<Rightarrow> cuty \<Rightarrow> cuty" where
  "DocumentComplete ok s =
     (if \<not> mSilent s \<and> \<not> ok
      then QApplication_exit 1 (emit (Cerr ''WebEngine failed to completely load url'') s)
      else let s1 = (if \<not> mSilent s
                     then emit (Cerr ''WebEngine finished loadFinished(true)'') s
                     else s)
           in updateViewportToContentThenMaybeCapture (s1\<lparr>mSawDocumentComplete := True\<rparr>))"

definition Timeout :: "cuty \<Rightarrow> cuty" where
  "Timeout s = saveSnapshot (if \<not> mSilent s then emit (Clog ''Timeout reached'') s else s)"

definition Delayed :: "cuty \<Rightarrow> cuty" where
  "Delayed s = saveSnapshot s"

text \<open>\<open>onContentsSizeChanged\<close>; the numbers of its log line are left out.\<close>

definition onContentsSizeChanged :: "rat \<times> rat \<Rightarrow> cuty \<Rightarrow> cuty" where
  "onContentsSizeChanged sz s =
     (let s1 = (if \<not> mSilent s then emit (Clog ''contentsSizeChanged'') s else s)
      in if fst sz > 0 \<and> snd sz > 0
         then s1\<lparr>mViewSize := QSizeF_toSize sz, mSawGeometryChange := True\<rparr>
         else s1)"

definition pdfPrintFinish :: "string \<Rightarrow> bool \<Rightarrow> cuty \<Rightarrow> cuty" where
  "pdfPrintFinish file success s =
     (if \<not> success \<and> \<not> mSilent s
      then QApplication_exit 1
             (emit (Cerr (''Failed to print page to PDF '' @ [CHR 0x27] @ file @ [CHR 0x27])) s)
      else QApplication_quit s)"

subsection \<open>The event loop\<close>

text \<open>
  What \<open>app.exec()\<close> delivers: the signals connected in \<open>main\<close>, the engine's calls
  into the page, the timers, and the completions of the asynchronous requests. A
  completion or a timer that is not outstanding cannot be delivered; \<open>dispatch\<close> leaves
  the state as it is then. \<open>SingleShotTimeout i\<close> fires the \<open>i\<close>-th armed one-shot timer.
\<close>

datatype event =
    LoadFinished bool
  | ContentsSizeChanged "rat \<times> rat"
  | JavaScriptResult int int
  | JavaScriptAlert string
  | TimerTimeout
  | SingleShotTimeout nat
  | PdfPrintingFinished bool
  | PlainTextResult string bool
  | HtmlResult string bool

definition dispatch :: "event \<Rightarrow> cuty \<Rightarrow> cuty" where
  "dispatch e s =
     (case e of
        LoadFinished ok \<Rightarrow> DocumentComplete ok s
      | ContentsSizeChanged sz \<Rightarrow> onContentsSizeChanged sz s
      | JavaScriptResult w h \<Rightarrow>
          (if jsPending s = 0 then s
           else runJavaScript_callback w h (s\<lparr>jsPending := jsPending s - 1\<rparr>))
      | JavaScriptAlert msg \<Rightarrow> javaScriptAlert msg s
      | TimerTimeout \<Rightarrow>
          (if mTimeoutTimer s then Timeout (s\<lparr>mTimeoutTimer := False\<rparr>) else s)
      | SingleShotTimeout i \<Rightarrow>
          (if i < length (singleShots s)
           then Delayed (s\<lparr>singleShots := take i (singleShots s) @ drop (Suc i) (singleShots s)\<rparr>)
           else s)
      | PdfPrintingFinished success \<Rightarrow>
          (case pdfPending s of
             [] \<Rightarrow> s
           | file # rest \<Rightarrow> pdfPrintFinish file success (s\<lparr>pdfPending := rest\<rparr>))
      | PlainTextResult result opens \<Rightarrow>
          (case plainTextPending s of
             [] \<Rightarrow> s
           | out # rest \<Rightarrow> text_callback out result opens (s\<lparr>plainTextPending := rest\<rparr>))
      | HtmlResult result opens \<Rightarrow>
          (case htmlPending s of
             [] \<Rightarrow> s
           | out # rest \<Rightarrow> text_callback out result opens (s\<lparr>htmlPending := rest\<rparr>)))"

text \<open>
  \<open>exec\<close> is \<open>app.exec()\<close> on the sequence of events that the loop delivers before it
  returns. \<open>QApplication::quit\<close> and \<open>QApplication::exit\<close> only ask the loop to stop and
  return to the slot that called them; events that are due can still be delivered
  before the loop returns, and no slot tests whether an exit has been requested. So
  every event of the sequence is dispatched, whatever \<open>exitCode\<close> holds, and the exit
  status is the code requested last.
\<close>

fun exec :: "event list \<Rightarrow> cuty \<Rightarrow> cuty" where
  "exec [] s = s"
| "exec (e # es) s = exec es (dispatch e s)"

text \<open>The invocations of the snapshot writer so far, with the format and size of each.\<close>

fun is_SaveSnapshot :: "effect \<Rightarrow> bool" where
  "is_SaveSnapshot (SaveSnapshot f sz) = True"
| "is_SaveSnapshot _ = False"

definition captures :: "cuty \<Rightarrow> effect list" where
  "captures s = filter is_SaveSnapshot (effects s)"

subsection \<open>The command line\<close>

text \<open>
  \<open>strtol\<close> belongs to the C library, so \<open>main\<close> takes it as a parameter. \<open>strtol_c\<close>
  is the C function for base 0 on a 64-bit \<open>long\<close>: white space, a sign, \<open>0x\<close> for
  hexadecimal and a leading \<open>0\<close> for octal, the longest run of digits, and the value
  kept between \<open>LONG_MIN\<close> and \<open>LONG_MAX\<close>.
\<close>

definition isspace_c :: "char \<Rightarrow> bool" where
  "isspace_c c = (c = CHR '' '' \<or> (9 \<le> (of_char c :: nat) \<and> (of_char c :: nat) \<le> 13))"

definition digit_val :: "char \<Rightarrow> nat option" where
  "digit_val c =
     (let n = (of_char c :: nat)
      in if 48 \<le> n \<and> n \<le> 57 then Some (n - 48)
         else if 97 \<le> n \<and> n \<le> 122 then Some (n - 87)
         else if 65 \<le> n \<and> n \<le> 90 then Some (n - 55)
         else None)"

fun strtol_digits :: "nat \<Rightarrow> string \<Rightarrow> nat \<Rightarrow> nat" where
  "strtol_digits b [] acc = acc"
| "strtol_digits b (c # cs) acc =
     (case digit_val c of
        None \<Rightarrow> acc
      | Some d \<Rightarrow> if d < b then strtol_digits b cs (acc * b + d) else acc)"

definition strtol_c :: "string \<Rightarrow> int" where
  "strtol_c str =
     (let s1 = dropWhile isspace_c str;
          neg = (take 1 s1 = ''-'');
          s2 = (if take 1 s1 = ''-'' \<or> take 1 s1 = ''+'' then drop 1 s1 else s1);
          n = (if take 2 s2 = ''0x'' \<or> take 2 s2 = ''0X'' then strtol_digits 16 (drop 2 s2) 0
               else if take 1 s2 = ''0'' then strtol_digits 8 s2 0
               else strtol_digits 10 s2 0)
      in if neg then max (- int n) (- (2 ^ 63)) else min (int n) (2 ^ 63 - 1))"

text \<open>The conversions of a \<open>long\<close> to \<open>int\<close>/\<open>int32_t\<close> and to \<open>uint32_t\<close>.\<close>

definition to_int32 :: "int \<Rightarrow> int" where
  "to_int32 x = sint (word_of_int x :: 32 word)"

definition to_uint32 :: "int \<Rightarrow> int" where
  "to_uint32 x = uint (word_of_int x :: 32 word)"

text \<open>
  \<open>strncmp(name, s, nlen) == 0\<close> where \<open>nlen\<close> is the position of the first \<open>=\<close> of \<open>s\<close>:
  the first \<open>nlen\<close> characters agree, or \<open>name\<close> ends earlier and they differ there.
\<close>

definition strncmp_eq :: "string \<Rightarrow> string \<Rightarrow> nat \<Rightarrow> bool" where
  "strncmp_eq name s nlen = (take nlen name = take nlen s)"

definition endsWith :: "string \<Rightarrow> string \<Rightarrow> bool" where
  "endsWith str e = (length e \<le> length str \<and> drop (length str - length e) str = e)"

text \<open>The loop of \<open>--out\<close>: every entry whose extension ends the path sets the format.\<close>

fun format_of_extension :: "CutyExt list \<Rightarrow> string \<Rightarrow> OutputFormat \<Rightarrow> OutputFormat" where
  "format_of_extension [] out f = f"
| "format_of_extension (e # es) out f =
     (if ext_id e = OtherFormat then f
      else format_of_extension es out (if endsWith out (ext_extension e) then ext_id e else f))"

text \<open>The loop of \<open>--out-format\<close>: every entry whose identifier is the value sets the format.\<close>

fun format_of_identifier :: "CutyExt list \<Rightarrow> string \<Rightarrow> OutputFormat \<Rightarrow> OutputFormat" where
  "format_of_identifier [] v f = f"
| "format_of_identifier (e # es) v f =
     (if ext_id e = OtherFormat then f
      else format_of_identifier es v (if v = ext_identifier e then ext_id e else f))"

record main_locals =
  argHelp :: bool
  argDelay :: int
  argSilent :: bool
  argInsecure :: bool
  argMinWidth :: int
  argMinHeight :: int
  argMaxWait :: int
  argSmooth :: bool
  argUrl :: "string option"
  argOut :: string
  format :: OutputFormat
  argAlertString :: string
  argPrintAlerts :: bool

text \<open>
  \<open>argAlertString\<close> and \<open>argPrintAlerts\<close> are what \<open>page.setAlertString\<close> and
  \<open>page.setPrintAlerts\<close> store in the engine page while the arguments are read.
\<close>

definition main_locals0 :: main_locals where
  "main_locals0 =
     \<lparr>argHelp = False, argDelay = 0, argSilent = False, argInsecure = False,
      argMinWidth = 800, argMinHeight = 600, argMaxWait = 90000, argSmooth = False,
      argUrl = None, argOut = [], format = OtherFormat,
      argAlertString = [], argPrintAlerts = False\<rparr>"

text \<open>
  The options between \<open>--out\<close> and \<open>--out-format\<close> in the chain of comparisons configure
  the engine, the application and the request only.
\<close>

definition engine_options :: "string list" where
  "engine_options =
     [''--auto-load-images'', ''--javascript'', ''--plugins'', ''--js-can-open-windows'',
      ''--js-can-access-clipboard'', ''--print-backgrounds'', ''--zoom-factor'',
      ''--app-name'', ''--app-version'', ''--body-base64'', ''--body-string'',
      ''--user-agent'']"

text \<open>
  One iteration of the argument loop; the second component says whether the loop is
  left by \<open>break\<close>.
\<close>

definition main_arg :: "(string \<Rightarrow> int) \<Rightarrow> string \<Rightarrow> main_locals \<Rightarrow> main_locals \<times> bool" where
  "main_arg strtol s a =
     (if s = ''--silent'' then (a\<lparr>argSilent := True\<rparr>, False)
      else if s = ''--help'' then (a\<lparr>argHelp := True\<rparr>, True)
      else if s = ''--insecure'' then (a\<lparr>argInsecure := True\<rparr>, False)
      else if s = ''--smooth'' then (a\<lparr>argSmooth := True\<rparr>, False)
      else if s = ''--debug-print-alerts'' then (a\<lparr>argPrintAlerts := True\<rparr>, False)
      else if CHR ''='' \<notin> set s then (a\<lparr>argHelp := True\<rparr>, True)
      else
        let nlen = length (takeWhile (\<lambda>c. c \<noteq> CHR ''='') s);
            val = drop (Suc nlen) s
        in if strncmp_eq ''--url'' s nlen then (a\<lparr>argUrl := Some val\<rparr>, False)
           else if strncmp_eq ''--min-width'' s nlen
             then (a\<lparr>argMinWidth := to_int32 (strtol val)\<rparr>, False)
           else if strncmp_eq ''--min-height'' s nlen
             then (a\<lparr>argMinHeight := to_int32 (strtol val)\<rparr>, False)
           else if strncmp_eq ''--delay'' s nlen
             then (a\<lparr>argDelay := to_int32 (strtol val)\<rparr>, False)
           else if strncmp_eq ''--max-wait'' s nlen
             then (a\<lparr>argMaxWait := to_uint32 (strtol val)\<rparr>, False)
           else if strncmp_eq ''--out'' s nlen
             then (a\<lparr>argOut := val,
                     format := (if format a = OtherFormat
                                then format_of_extension CutyExtMap val (format a)
                                else format a)\<rparr>, False)
           else if \<exists>name \<in> set engine_options. strncmp_eq name s nlen then (a, False)
           else if strncmp_eq ''--out-format'' s nlen
             then (let f = format_of_identifier CutyExtMap val (format a)
                   in if f = OtherFormat then (a\<lparr>format := f, argHelp := True\<rparr>, True)
                      else (a\<lparr>format := f\<rparr>, False))
           else if strncmp_eq ''--header'' s nlen
             then (if CHR '':'' \<notin> set val then (a\<lparr>argHelp := True\<rparr>, True) else (a, False))
           else if strncmp_eq ''--inject-script'' s nlen then (a, False)
           else if strncmp_eq ''--script-object'' s nlen then (a, False)
           else if strncmp_eq ''--expect-alert'' s nlen
             then (a\<lparr>argAlertString := val\<rparr>, False)
           else (a\<lparr>argHelp := True\<rparr>, False))"

fun main_loop :: "(string \<Rightarrow> int) \<Rightarrow> string list \<Rightarrow> main_locals \<Rightarrow> main_locals" where
  "main_loop strtol [] a = a"
| "main_loop strtol (s # rest) a =
     (case main_arg strtol s a of
        (a1, True) \<Rightarrow> a1
      | (a1, False) \<Rightarrow> main_loop strtol rest a1)"

text \<open>
  The state in which \<open>main\<close> enters \<open>app.exec()\<close>: the \<open>CutyCapt\<close> constructor, the
  timeout timer, and the sizing of the page to \<open>argSize\<close>, the configured minimum
  (a new top-level widget is 640 by 480 and has no size limits). \<open>grab\<close> is the
  environment's \<open>grabIsNull\<close>.
\<close>

definition argSize :: "main_locals \<Rightarrow> QSize" where
  "argSize a = (argMinWidth a, argMinHeight a)"

definition main_setup :: "bool \<Rightarrow> main_locals \<Rightarrow> cuty" where
  "main_setup grab a =
     (let s = \<lparr>mOutput = argOut a, mDelay = argDelay a, mFormat = format a,
               mSawDocumentComplete = False, mSawGeometryChange = False,
               mViewSize = QSize_default,
               mInsecure = argInsecure a, mSmooth = argSmooth a, mSilent = argSilent a,
               mTimeoutTimer = (argMaxWait a > 0),
               mAlertString = argAlertString a, mPrintAlerts = argPrintAlerts a,
               page_mInsecure = argInsecure a, mCutyCapt = True,
               widget_size = (640, 480), widget_minimumSize = (0, 0),
               widget_maximumSize = (QWIDGETSIZE_MAX, QWIDGETSIZE_MAX),
               grabIsNull = grab, singleShots = [], jsPending = 0,
               pdfPending = [], plainTextPending = [], htmlPending = [],
               exitCode = None, effects = []\<rparr>
      in resize (argSize a) (setMaximumSize (QWIDGETSIZE_MAX, QWIDGETSIZE_MAX)
           (setMinimumSize (argSize a) s)))"

definition EXIT_FAILURE :: int where
  "EXIT_FAILURE = 1"

text \<open>
  \<open>main\<close> up to \<open>app.exec()\<close>: \<open>Inl\<close> is the return with the help text, before the page
  is loaded; \<open>Inr\<close> is the state in which the event loop starts.
\<close>

definition main_init :: "(string \<Rightarrow> int) \<Rightarrow> bool \<Rightarrow> string list \<Rightarrow> int + cuty" where
  "main_init strtol grab argv =
     (let a = main_loop strtol (tl argv) main_locals0
      in if argUrl a = None \<or> argOut a = [] \<or> argHelp a then Inl EXIT_FAILURE
         else Inr (main_setup grab a))"

text \<open>
  \<open>main\<close> on a command line and the events the loop then delivers: the exit status
  (\<open>None\<close> when no exit has been requested yet) and the writer invocations made.
\<close>

definition main :: "(string \<Rightarrow> int) \<Rightarrow> bool \<Rightarrow> string list \<Rightarrow> event list \<Rightarrow> int option \<times> effect list" where
  "main strtol grab argv evs =
     (case main_init strtol grab argv of
        Inl c \<Rightarrow> (Some c, [])
      | Inr s \<Rightarrow> (exitCode (exec evs s), captures (exec evs s)))"

subsection \<open>Notions used in the statements\<close>

text \<open>
  The formats whose writer finishes inside \<open>saveSnapshot\<close> (the \<open>SvgFormat\<close> case and the
  \<open>default\<close> case of its \<open>switch\<close>); the other four hand the work to an asynchronous
  request of the engine.
\<close>

definition synchronous :: "OutputFormat \<Rightarrow> bool" where
  "synchronous f =
     (f \<noteq> PdfFormat \<and> f \<noteq> PsFormat \<and> f \<noteq> InnerTextFormat \<and> f \<noteq> HtmlFormat)"

text \<open>The size \<open>saveSnapshot\<close> settles on: view size, else widget size, else 800 by 600.\<close>

definition final_size :: "cuty \<Rightarrow> QSize" where
  "final_size s =
     (if \<not> QSize_isEmpty (mViewSize s) then mViewSize s
      else if \<not> QSize_isEmpty (widget_size s) then widget_size s
      else (800, 600))"

text \<open>The call \<open>saveSnapshot\<close> makes for the format of the state.\<close>

definition writer_call :: "cuty \<Rightarrow> effect" where
  "writer_call s =
     (if mFormat s = SvgFormat then SvgRender (mOutput s) (final_size s)
      else if mFormat s = PdfFormat \<or> mFormat s = PsFormat then PrintToPdf (mOutput s)
      else if mFormat s = InnerTextFormat then ToPlainText (mOutput s)
      else if mFormat s = HtmlFormat then ToHtml (mOutput s)
      else if grabIsNull s
        then ImageSave (mOutput s) (identifier_of CutyExtMap (mFormat s)) (final_size s) (mSmooth s)
      else PixmapSave (mOutput s) (identifier_of CutyExtMap (mFormat s)))"

text \<open>
  The events other than the global timeout and an alert with the message \<open>al\<close>: load
  results, content size changes, probe answers, other alerts, one-shot timers and the
  completions of the engine's requests.
\<close>

fun not_alert_nor_timeout :: "string \<Rightarrow> event \<Rightarrow> bool" where
  "not_alert_nor_timeout al TimerTimeout = False"
| "not_alert_nor_timeout al (JavaScriptAlert msg) = (msg \<noteq> al)"
| "not_alert_nor_timeout al _ = True"

text \<open>
  The events whose slot or callback can reach \<open>saveSnapshot\<close>: the global timeout, a
  one-shot timer and a probe answer.
\<close>

fun is_trigger :: "event \<Rightarrow> bool" where
  "is_trigger TimerTimeout = True"
| "is_trigger (SingleShotTimeout i) = True"
| "is_trigger (JavaScriptResult w h) = True"
| "is_trigger _ = False"

definition timer_inv :: "cuty \<Rightarrow> bool" where
  "timer_inv s = (captures s \<noteq> [] \<longrightarrow> \<not> mTimeoutTimer s)"

definition exit_inv :: "cuty \<Rightarrow> bool" where
  "exit_inv s = (captures s \<noteq> [] \<and> synchronous (mFormat s) \<longrightarrow> exitCode s \<noteq> None)"

text \<open>
  The events that store no size: every event but a probe answer with two positive
  sides and a content size notification with two positive sides.
\<close>

fun no_size_event :: "event \<Rightarrow> bool" where
  "no_size_event (JavaScriptResult w h) = (\<not> (0 < w \<and> 0 < h))"
| "no_size_event (ContentsSizeChanged sz) = (\<not> (0 < fst sz \<and> 0 < snd sz))"
| "no_size_event _ = True"

definition size_inv :: "cuty \<Rightarrow> bool" where
  "size_inv s = (QSize_isEmpty (widget_size s) \<and> final_size s = (800, 600))"

text \<open>The identifiers and extensions of the table, the sentinel left out.\<close>

definition identifiers :: "string list" where
  "identifiers = [''svg'', ''pdf'', ''ps'', ''itext'', ''html'', ''jpeg'', ''png'', ''mng'',
                  ''tiff'', ''gif'', ''bmp'', ''ppm'', ''xbm'', ''xpm'']"

definition extensions :: "string list" where
  "extensions = [''.svg'', ''.pdf'', ''.ps'', ''.txt'', ''.html'', ''.jpeg'', ''.png'', ''.mng'',
                 ''.tiff'', ''.gif'', ''.bmp'', ''.ppm'', ''.xbm'', ''.xpm'']"

text \<open>
  The state in which the event loop starts for a command line, with the C library's
  \<open>strtol\<close> and a \<open>grab\<close> that succeeds.
\<close>

definition start :: "string list \<Rightarrow> cuty" where
  "start argv = main_setup False (main_loop strtol_c (tl argv) main_locals0)"

text \<open>Command lines used as concrete runs.\<close>

definition argv_png :: "string list" where
  "argv_png = [''cutycapt'', ''--url=http://example.org/'', ''--out=shot.png'']"

definition argv_png_delay :: "string list" where
  "argv_png_delay = argv_png @ [''--delay=500'']"

definition argv_png_silent :: "string list" where
  "argv_png_silent = argv_png @ [''--silent'']"

definition argv_png_insecure :: "string list" where
  "argv_png_insecure = argv_png @ [''--insecure'']"

definition argv_png_alert :: "string list" where
  "argv_png_alert = argv_png @ [''--expect-alert=READY'']"

definition argv_png_min_width_0 :: "string list" where
  "argv_png_min_width_0 = argv_png @ [''--min-width=0'']"

definition argv_pdf_alert :: "string list" where
  "argv_pdf_alert =
     [''cutycapt'', ''--url=http://example.org/'', ''--out=page.pdf'', ''--expect-alert=READY'']"

definition argv_pdf_silent :: "string list" where
  "argv_pdf_silent =
     [''cutycapt'', ''--url=http://example.org/'', ''--out=page.pdf'', ''--silent'']"

definition argv_txt :: "string list" where
  "argv_txt = [''cutycapt'', ''--url=http://example.org/'', ''--out=page.txt'']"

definition argv_html :: "string list" where
  "argv_html = [''cutycapt'', ''--url=http://example.org/'', ''--out=page.html'']"

definition argv_xyz :: "string list" where
  "argv_xyz = [''cutycapt'', ''--url=http://example.org/'', ''--out=shot.xyz'']"

text \<open>Whether a path ends in one of the table's extensions.\<close>

definition has_known_extension :: "string \<Rightarrow> bool" where
  "has_known_extension p = (\<exists>e \<in> set extensions. endsWith p e)"

section \<open>Properties\<close>

subsection \<open>The writer\<close>

lemmas ops_defs = emit_def QApplication_exit_def QApplication_quit_def singleShot_def

lemmas handler_defs = DocumentComplete_def updateViewportToContentThenMaybeCapture_def
  runJavaScript_callback_def TryDelayedRender_def Timeout_def Delayed_def
  onContentsSizeChanged_def pdfPrintFinish_def javaScriptAlert_def text_callback_def
  setMinimumSize_def resize_def

lemma nonzero_size_eq: "nonzero_size s = s\<lparr>mViewSize := final_size s\<rparr>"
  by (simp add: nonzero_size_def final_size_def Let_def)

lemma final_size_timer: "final_size (s\<lparr>mTimeoutTimer := b\<rparr>) = final_size s"
  by (simp add: final_size_def)

lemma saveSnapshot_eq:
  "saveSnapshot s =
     s\<lparr>mViewSize := final_size s,
       mTimeoutTimer := False,
       pdfPending := pdfPending s @
         (if mFormat s = PdfFormat \<or> mFormat s = PsFormat then [mOutput s] else []),
       plainTextPending := plainTextPending s @
         (if mFormat s = InnerTextFormat then [mOutput s] else []),
       htmlPending := htmlPending s @ (if mFormat s = HtmlFormat then [mOutput s] else []),
       exitCode := (if synchronous (mFormat s) then Some 0 else exitCode s),
       effects := effects s @ [SaveSnapshot (mFormat s) (final_size s), writer_call s]\<rparr>"
  by (cases "mFormat s")
     (simp_all add: saveSnapshot_def nonzero_size_eq final_size_timer Let_def ops_defs
        synchronous_def writer_call_def)

lemma writer_call_not_marker: "\<not> is_SaveSnapshot (writer_call s)"
  by (simp add: writer_call_def)

lemma captures_saveSnapshot:
  "captures (saveSnapshot s) = captures s @ [SaveSnapshot (mFormat s) (final_size s)]"
  by (simp add: saveSnapshot_eq captures_def writer_call_not_marker)

subsection \<open>Invariants of the event loop\<close>

lemma dispatch_mFormat: "mFormat (dispatch e s) = mFormat s"
  by (cases e)
     (simp_all add: dispatch_def handler_defs ops_defs saveSnapshot_eq Let_def split: list.splits)

lemma exec_mFormat: "mFormat (exec evs s) = mFormat s"
  by (induction evs arbitrary: s) (simp_all add: dispatch_mFormat)

lemma dispatch_captures_bound:
  "length (captures (dispatch e s)) \<le> length (captures s) + (if is_trigger e then 1 else 0)"
  by (cases e)
     (simp_all add: captures_def dispatch_def handler_defs ops_defs
        saveSnapshot_eq writer_call_not_marker Let_def split: list.splits)

lemma exec_captures_bound:
  "length (captures (exec evs s)) \<le> length (captures s) + length (filter is_trigger evs)"
proof (induction evs arbitrary: s)
  case Nil
  then show ?case by simp
next
  case (Cons e evs)
  have "length (captures (exec evs (dispatch e s)))
      \<le> length (captures (dispatch e s)) + length (filter is_trigger evs)"
    by (rule Cons.IH)
  also have "\<dots> \<le> length (captures s) + (if is_trigger e then 1 else 0)
      + length (filter is_trigger evs)"
    using dispatch_captures_bound [of e s] by simp
  finally show ?case by (simp split: if_splits)
qed

lemma dispatch_exit_inv: "exit_inv s \<Longrightarrow> exit_inv (dispatch e s)"
  by (cases e)
     (auto simp add: exit_inv_def captures_def dispatch_def handler_defs ops_defs
        saveSnapshot_eq writer_call_not_marker Let_def split: list.splits)

lemma exec_exit_inv: "exit_inv s \<Longrightarrow> exit_inv (exec evs s)"
  by (induction evs arbitrary: s) (simp_all add: dispatch_exit_inv)

lemma final_size_same:
  "mViewSize t = mViewSize s \<Longrightarrow> widget_size t = widget_size s \<Longrightarrow> final_size t = final_size s"
  by (simp add: final_size_def)

lemma size_inv_same:
  "size_inv s \<Longrightarrow> mViewSize t = mViewSize s \<Longrightarrow> widget_size t = widget_size s \<Longrightarrow> size_inv t"
  using final_size_same [of t s] by (simp add: size_inv_def)

lemma size_inv_saveSnapshot:
  assumes "size_inv s"
  shows "size_inv (saveSnapshot s)"
    and "captures (saveSnapshot s) = captures s @ [SaveSnapshot (mFormat s) (800, 600)]"
proof -
  from assms have fs: "final_size s = (800, 600)" and w: "QSize_isEmpty (widget_size s)"
    by (simp_all add: size_inv_def)
  have "mViewSize (saveSnapshot s) = (800, 600)" and "widget_size (saveSnapshot s) = widget_size s"
    by (simp_all add: saveSnapshot_eq fs)
  with w show "size_inv (saveSnapshot s)"
    by (simp add: size_inv_def final_size_def QSize_isEmpty_def)
  show "captures (saveSnapshot s) = captures s @ [SaveSnapshot (mFormat s) (800, 600)]"
    by (simp add: captures_saveSnapshot fs)
qed

lemma runJavaScript_callback_unusable:
  assumes "\<not> (0 < w \<and> 0 < h)" and "QSize_isEmpty (widget_size s)"
  shows "runJavaScript_callback w h s =
           s\<lparr>mViewSize := widget_size s, mSawGeometryChange := False\<rparr>"
  using assms by (auto simp add: runJavaScript_callback_def Let_def)

lemma dispatch_size_inv:
  assumes inv: "size_inv s" and ev: "no_size_event e"
  shows "size_inv (dispatch e s) \<and>
         (captures (dispatch e s) = captures s \<or>
          captures (dispatch e s) = captures s @ [SaveSnapshot (mFormat s) (800, 600)])"
proof (cases e)
  case (LoadFinished ok)
  have "mViewSize (dispatch e s) = mViewSize s" "widget_size (dispatch e s) = widget_size s"
    "captures (dispatch e s) = captures s"
    by (simp_all add: LoadFinished dispatch_def DocumentComplete_def
          updateViewportToContentThenMaybeCapture_def ops_defs captures_def Let_def)
  with inv show ?thesis by (simp add: size_inv_same)
next
  case (ContentsSizeChanged sz)
  with ev have "\<not> (0 < fst sz \<and> 0 < snd sz)" by simp
  then have "mViewSize (dispatch e s) = mViewSize s" "widget_size (dispatch e s) = widget_size s"
    "captures (dispatch e s) = captures s"
    by (auto simp add: ContentsSizeChanged dispatch_def onContentsSizeChanged_def ops_defs
          captures_def Let_def)
  with inv show ?thesis by (simp add: size_inv_same)
next
  case (JavaScriptResult w h)
  with ev have bad: "\<not> (0 < w \<and> 0 < h)" by simp
  from inv have w: "QSize_isEmpty (widget_size s)" by (simp add: size_inv_def)
  show ?thesis
  proof (cases "jsPending s = 0")
    case True
    with inv show ?thesis by (simp add: JavaScriptResult dispatch_def)
  next
    case False
    let ?p = "s\<lparr>jsPending := jsPending s - 1\<rparr>"
    from w have "QSize_isEmpty (widget_size ?p)" by simp
    from runJavaScript_callback_unusable [OF bad this] False
    have d: "dispatch e s = ?p\<lparr>mViewSize := widget_size ?p, mSawGeometryChange := False\<rparr>"
      by (simp add: JavaScriptResult dispatch_def)
    from w have "size_inv (dispatch e s)"
      by (simp add: d size_inv_def final_size_def)
    moreover have "captures (dispatch e s) = captures s"
      by (simp add: d captures_def)
    ultimately show ?thesis by simp
  qed
next
  case (JavaScriptAlert msg)
  have "mViewSize (dispatch e s) = mViewSize s" "widget_size (dispatch e s) = widget_size s"
    "captures (dispatch e s) = captures s"
    by (simp_all add: JavaScriptAlert dispatch_def javaScriptAlert_def ops_defs captures_def
          Let_def)
  with inv show ?thesis by (simp add: size_inv_same)
next
  case TimerTimeout
  show ?thesis
  proof (cases "mTimeoutTimer s")
    case False
    with inv show ?thesis by (simp add: TimerTimeout dispatch_def)
  next
    case True
    let ?p = "if \<not> mSilent s then emit (Clog ''Timeout reached'') (s\<lparr>mTimeoutTimer := False\<rparr>)
              else s\<lparr>mTimeoutTimer := False\<rparr>"
    from True have d: "dispatch e s = saveSnapshot ?p"
      by (simp add: TimerTimeout dispatch_def Timeout_def ops_defs)
    have "mViewSize ?p = mViewSize s" "widget_size ?p = widget_size s"
      and p: "captures ?p = captures s" "mFormat ?p = mFormat s"
      by (simp_all add: ops_defs captures_def)
    with inv have "size_inv ?p" by (simp add: size_inv_same)
    from size_inv_saveSnapshot [OF this] p show ?thesis by (simp only: d) simp
  qed
next
  case (SingleShotTimeout i)
  show ?thesis
  proof (cases "i < length (singleShots s)")
    case False
    with inv show ?thesis by (simp add: SingleShotTimeout dispatch_def)
  next
    case True
    let ?p = "s\<lparr>singleShots := take i (singleShots s) @ drop (Suc i) (singleShots s)\<rparr>"
    from True have d: "dispatch e s = saveSnapshot ?p"
      by (simp add: SingleShotTimeout dispatch_def Delayed_def)
    have "mViewSize ?p = mViewSize s" "widget_size ?p = widget_size s"
      and p: "captures ?p = captures s" "mFormat ?p = mFormat s"
      by (simp_all add: captures_def)
    with inv have "size_inv ?p" by (simp add: size_inv_same)
    from size_inv_saveSnapshot [OF this] p show ?thesis by (simp only: d) simp
  qed
next
  case (PdfPrintingFinished success)
  have "mViewSize (dispatch e s) = mViewSize s" "widget_size (dispatch e s) = widget_size s"
    "captures (dispatch e s) = captures s"
    by (simp_all add: PdfPrintingFinished dispatch_def pdfPrintFinish_def ops_defs captures_def
          split: list.splits)
  with inv show ?thesis by (simp add: size_inv_same)
next
  case (PlainTextResult result opens)
  have "mViewSize (dispatch e s) = mViewSize s" "widget_size (dispatch e s) = widget_size s"
    "captures (dispatch e s) = captures s"
    by (simp_all add: PlainTextResult dispatch_def text_callback_def ops_defs captures_def
          split: list.splits)
  with inv show ?thesis by (simp add: size_inv_same)
next
  case (HtmlResult result opens)
  have "mViewSize (dispatch e s) = mViewSize s" "widget_size (dispatch e s) = widget_size s"
    "captures (dispatch e s) = captures s"
    by (simp_all add: HtmlResult dispatch_def text_callback_def ops_defs captures_def
          split: list.splits)
  with inv show ?thesis by (simp add: size_inv_same)
qed

lemma exec_size_inv:
  "size_inv s \<Longrightarrow> \<forall>e \<in> set evs. no_size_event e \<Longrightarrow>
     size_inv (exec evs s) \<and>
     (\<exists>n. captures (exec evs s) = captures s @ replicate n (SaveSnapshot (mFormat s) (800, 600)))"
proof (induction evs arbitrary: s)
  case Nil
  then show ?case by simp
next
  case (Cons e evs)
  from Cons.prems have step: "size_inv (dispatch e s)"
    and one: "captures (dispatch e s) = captures s \<or>
      captures (dispatch e s) = captures s @ [SaveSnapshot (mFormat s) (800, 600)]"
    by (simp_all add: dispatch_size_inv)
  from Cons.IH [OF step] Cons.prems obtain n
    where inv: "size_inv (exec evs (dispatch e s))"
      and rest: "captures (exec evs (dispatch e s))
        = captures (dispatch e s) @ replicate n (SaveSnapshot (mFormat s) (800, 600))"
    by (auto simp add: dispatch_mFormat)
  from one show ?case
  proof
    assume "captures (dispatch e s) = captures s"
    with inv rest show ?thesis by auto
  next
    assume "captures (dispatch e s) = captures s @ [SaveSnapshot (mFormat s) (800, 600)]"
    with rest have "captures (exec evs (dispatch e s))
        = captures s @ replicate (Suc n) (SaveSnapshot (mFormat s) (800, 600))"
      by simp
    with inv show ?thesis by (simp del: replicate_Suc)
  qed
qed

lemma dispatch_timer_inv: "timer_inv s \<Longrightarrow> timer_inv (dispatch e s)"
  by (cases e)
     (simp_all add: timer_inv_def captures_def dispatch_def handler_defs ops_defs
        saveSnapshot_eq writer_call_not_marker Let_def split: list.splits)

lemma exec_timer_inv: "timer_inv s \<Longrightarrow> timer_inv (exec evs s)"
  by (induction evs arbitrary: s) (simp_all add: dispatch_timer_inv)

lemma dispatch_timeout_inactive: "\<not> mTimeoutTimer s \<Longrightarrow> dispatch TimerTimeout s = s"
  by (simp add: dispatch_def)

lemma dispatch_alert_gated:
  assumes "mAlertString s \<noteq> []" and "singleShots s = []"
    and "not_alert_nor_timeout (mAlertString s) e"
  shows "mAlertString (dispatch e s) = mAlertString s \<and>
         mCutyCapt (dispatch e s) = mCutyCapt s \<and>
         singleShots (dispatch e s) = [] \<and>
         captures (dispatch e s) = captures s"
  using assms
  by (cases e)
     (simp_all add: captures_def dispatch_def handler_defs ops_defs Let_def split: list.splits)

lemma exec_alert_gated:
  "mAlertString s \<noteq> [] \<Longrightarrow> singleShots s = [] \<Longrightarrow>
   \<forall>e \<in> set evs. not_alert_nor_timeout (mAlertString s) e \<Longrightarrow>
     mAlertString (exec evs s) = mAlertString s \<and>
     mCutyCapt (exec evs s) = mCutyCapt s \<and>
     singleShots (exec evs s) = [] \<and>
     captures (exec evs s) = captures s"
proof (induction evs arbitrary: s)
  case Nil
  then show ?case by simp
next
  case (Cons e evs)
  then have step: "mAlertString (dispatch e s) = mAlertString s \<and>
         mCutyCapt (dispatch e s) = mCutyCapt s \<and>
         singleShots (dispatch e s) = [] \<and>
         captures (dispatch e s) = captures s"
    by (simp add: dispatch_alert_gated)
  with Cons.prems Cons.IH [of "dispatch e s"] show ?case by simp
qed

subsection \<open>The argument loop\<close>

lemma format_of_identifier_unknown:
  "v \<notin> set identifiers \<Longrightarrow> format_of_identifier CutyExtMap v f = f"
  by (simp add: identifiers_def CutyExtMap_def mkExt_def)

lemma format_of_extension_unknown:
  "\<forall>e \<in> set extensions. \<not> endsWith p e \<Longrightarrow> format_of_extension CutyExtMap p f = f"
  by (simp add: extensions_def CutyExtMap_def mkExt_def)

lemma main_arg_out_format_unknown:
  assumes "v \<notin> set identifiers" and "format a = OtherFormat"
  shows "main_arg strtol (''--out-format='' @ v) a =
           (a\<lparr>format := OtherFormat, argHelp := True\<rparr>, True)"
  using assms
  by (simp add: main_arg_def strncmp_eq_def engine_options_def format_of_identifier_unknown
        Let_def)

lemma main_arg_break_help:
  "case main_arg strtol s a of (a1, b) \<Rightarrow> b \<longrightarrow> argHelp a1"
  by (simp add: main_arg_def Let_def)

lemma main_arg_help_mono: "argHelp a \<Longrightarrow> argHelp (fst (main_arg strtol s a))"
  by (simp add: main_arg_def Let_def)

lemma main_loop_help_mono: "argHelp a \<Longrightarrow> argHelp (main_loop strtol args a)"
proof (induction args arbitrary: a)
  case Nil
  then show ?case by simp
next
  case (Cons s args)
  obtain a1 b where step: "main_arg strtol s a = (a1, b)"
    by (cases "main_arg strtol s a")
  with main_arg_help_mono [OF Cons.prems, of strtol s] have "argHelp a1" by simp
  with Cons.IH [of a1] step show ?case by (cases b) simp_all
qed

lemma main_loop_append:
  "argHelp (main_loop strtol (pre @ rest) a) \<or>
   main_loop strtol (pre @ rest) a = main_loop strtol rest (main_loop strtol pre a)"
proof (induction pre arbitrary: a)
  case Nil
  then show ?case by simp
next
  case (Cons s pre)
  obtain a1 b where step: "main_arg strtol s a = (a1, b)"
    by (cases "main_arg strtol s a")
  show ?case
  proof (cases b)
    case True
    with step main_arg_break_help [of strtol s a] have "argHelp a1" by simp
    with step True show ?thesis by simp
  next
    case False
    with step Cons.IH [of a1] show ?thesis by simp
  qed
qed

lemma main_loop_out_format_unknown:
  assumes "v \<notin> set identifiers"
    and "format (main_loop strtol pre main_locals0) = OtherFormat"
  shows "argHelp (main_loop strtol (pre @ (''--out-format='' @ v) # post) main_locals0)"
  using main_loop_append [of strtol pre "(''--out-format='' @ v) # post" main_locals0]
    main_arg_out_format_unknown [OF assms, of strtol]
  by auto

lemma main_init_unknown_extension:
  assumes "\<forall>e \<in> set extensions. \<not> endsWith p e" and "p \<noteq> []"
  shows "main_init strtol grab [a0, ''--url='' @ u, ''--out='' @ p]
           = Inr (main_setup grab (main_locals0\<lparr>argUrl := Some u, argOut := p\<rparr>))"
  using assms
  by (simp add: main_init_def main_arg_def strncmp_eq_def main_locals0_def
        format_of_extension_unknown Let_def)

lemma main_setup_fields:
  "mFormat (main_setup grab a) = format a"
  "page_mInsecure (main_setup grab a) = argInsecure a"
  "captures (main_setup grab a) = []"
  by (simp_all add: main_setup_def setMinimumSize_def setMaximumSize_def resize_def
        captures_def Let_def)

section \<open>The claims\<close>

text \<open>
  Claim C1, as amended. \<open>CutyCapt\<close> keeps no ``captured'' flag, and \<open>saveSnapshot\<close> is not
  limited to one invocation per run. What holds for every run and every interleaving
  of events is this. Each delivered event invokes the writer at most once, and only
  the global timeout, a one-shot timer and a probe answer can do so, so the number of
  invocations is at most the number of those events delivered (each matching alert
  arms a timer of its own, and each such timer invokes the writer when it fires).
  An invocation stops the global timeout timer: once a capture has been made, a
  pending timeout is a no-op. In the formats that the writer finishes inside
  \<open>saveSnapshot\<close> (SVG and the raster formats, the unresolved format among them) an
  invocation has requested the exit of the event loop.
\<close>

theorem saveSnapshot_per_trigger:
  assumes "captures s = []"
  shows "length (captures (exec evs s)) \<le> length (filter is_trigger evs) \<and>
         (captures (exec evs s) \<noteq> [] \<longrightarrow> dispatch TimerTimeout (exec evs s) = exec evs s) \<and>
         (captures (exec evs s) \<noteq> [] \<and> synchronous (mFormat s) \<longrightarrow>
            exitCode (exec evs s) \<noteq> None)"
proof -
  from assms have "timer_inv s" and "exit_inv s"
    by (simp_all add: timer_inv_def exit_inv_def)
  then have "timer_inv (exec evs s)" and "exit_inv (exec evs s)"
    by (simp_all add: exec_timer_inv exec_exit_inv)
  moreover from assms exec_captures_bound [of evs s]
  have "length (captures (exec evs s)) \<le> length (filter is_trigger evs)"
    by simp
  ultimately show ?thesis
    by (simp add: timer_inv_def exit_inv_def exec_mFormat dispatch_timeout_inactive)
qed

text \<open>
  A run of claim C1's amended statement: a PNG capture with an expected alert; the alert
  arrives twice and both grace timers fire, so the writer is invoked twice; the exit
  has been requested and the timeout that follows is a no-op.
\<close>

theorem saveSnapshot_per_trigger_witness:
  "captures (start argv_png_alert) = [] \<and>
   synchronous (mFormat (start argv_png_alert)) \<and>
   length (captures (exec [JavaScriptAlert ''READY'', JavaScriptAlert ''READY'',
              SingleShotTimeout 0, SingleShotTimeout 0] (start argv_png_alert))) = 2 \<and>
   length (filter is_trigger [JavaScriptAlert ''READY'', JavaScriptAlert ''READY'',
              SingleShotTimeout 0, SingleShotTimeout 0]) = 2 \<and>
   exitCode (exec [JavaScriptAlert ''READY'', JavaScriptAlert ''READY'',
              SingleShotTimeout 0, SingleShotTimeout 0] (start argv_png_alert)) \<noteq> None \<and>
   dispatch TimerTimeout (exec [JavaScriptAlert ''READY'', JavaScriptAlert ''READY'',
              SingleShotTimeout 0, SingleShotTimeout 0] (start argv_png_alert))
     = exec [JavaScriptAlert ''READY'', JavaScriptAlert ''READY'',
              SingleShotTimeout 0, SingleShotTimeout 0] (start argv_png_alert)"
proof -
  have h: "captures (start argv_png_alert) = []"
    by code_simp
  have sync: "synchronous (mFormat (start argv_png_alert))"
    by code_simp
  have two: "length (captures (exec [JavaScriptAlert ''READY'', JavaScriptAlert ''READY'',
              SingleShotTimeout 0, SingleShotTimeout 0] (start argv_png_alert))) = 2"
    by code_simp
  have trig: "length (filter is_trigger [JavaScriptAlert ''READY'', JavaScriptAlert ''READY'',
              SingleShotTimeout 0, SingleShotTimeout 0]) = 2"
    by simp
  from two have some: "captures (exec [JavaScriptAlert ''READY'', JavaScriptAlert ''READY'',
              SingleShotTimeout 0, SingleShotTimeout 0] (start argv_png_alert)) \<noteq> []"
    by auto
  from saveSnapshot_per_trigger [OF h, of "[JavaScriptAlert ''READY'',
      JavaScriptAlert ''READY'', SingleShotTimeout 0, SingleShotTimeout 0]"]
    h sync two trig some
  show ?thesis by blast
qed

text \<open>
  Claim C1 as stated fails: with PDF output and the expected alert raised twice, both
  grace timers fire before the print completes, and the writer is invoked twice.
\<close>

theorem saveSnapshot_twice_counterexample:
  "main strtol_c False argv_pdf_alert
     [JavaScriptAlert ''READY'', JavaScriptAlert ''READY'',
      SingleShotTimeout 0, SingleShotTimeout 0]
   = (None, [SaveSnapshot PdfFormat (800, 600), SaveSnapshot PdfFormat (800, 600)])"
  by code_simp

text \<open>
  Claim C2, at the input where the code departs from it: with \<open>--silent\<close>, a load that
  the engine reports as failed does not end the process; the page is probed and
  captured, and the exit status is 0.
\<close>

theorem DocumentComplete_silent_failure_captures:
  "main strtol_c False argv_png_silent [LoadFinished False, JavaScriptResult 1024 768]
   = (Some 0, [SaveSnapshot PngFormat (1024, 768)])"
  by code_simp

text \<open>
  Claim C3. With an expected alert string configured and no one-shot timer armed, no
  sequence of events without the global timeout and without an alert of exactly that
  string (so: any number of load results, content size changes and probe answers, and
  alerts with other messages) invokes the writer or arms a timer. An alert arms the
  10 ms one-shot timer exactly when its message equals the configured string, and does
  not itself invoke the writer; the capture is made when that timer fires.
\<close>

theorem alert_gating:
  assumes "mAlertString s \<noteq> []" and "mCutyCapt s" and "singleShots s = []"
    and "\<forall>e \<in> set evs. not_alert_nor_timeout (mAlertString s) e"
  shows "captures (exec evs s) = captures s \<and>
         singleShots (exec evs s) = [] \<and>
         singleShots (javaScriptAlert msg (exec evs s)) =
           (if msg = mAlertString s then [10] else []) \<and>
         captures (javaScriptAlert msg (exec evs s)) = captures s \<and>
         captures (dispatch (SingleShotTimeout 0) (javaScriptAlert (mAlertString s) (exec evs s)))
           = captures s @ [SaveSnapshot (mFormat s) (final_size (exec evs s))]"
proof -
  let ?t = "exec evs s"
  from exec_alert_gated [OF assms(1) assms(3) assms(4)] assms
  have t: "mAlertString ?t = mAlertString s" "mCutyCapt ?t" "singleShots ?t = []"
    "captures ?t = captures s"
    by simp_all
  have a: "singleShots (javaScriptAlert msg ?t) = (if msg = mAlertString s then [10] else [])"
    using t assms(1) by (simp add: javaScriptAlert_def ops_defs Let_def)
  have b: "captures (javaScriptAlert msg ?t) = captures s"
    using t by (simp add: javaScriptAlert_def ops_defs captures_def Let_def)
  have fmt: "mFormat ?t = mFormat s"
    by (induction evs arbitrary: s) (simp_all add: dispatch_mFormat)
  have c: "captures (dispatch (SingleShotTimeout 0) (javaScriptAlert (mAlertString s) ?t))
             = captures s @ [SaveSnapshot (mFormat s) (final_size ?t)]"
    using t assms(1) fmt
    by (simp add: javaScriptAlert_def dispatch_def Delayed_def ops_defs captures_def
          saveSnapshot_eq writer_call_not_marker final_size_def Let_def)
  from t a b c show ?thesis by simp
qed

text \<open>
  A run of claim C3: the alert string \<open>READY\<close> is configured; the load succeeds, the
  content size changes and an alert \<open>ready\<close> is raised; nothing is captured and no timer
  is armed until the alert \<open>READY\<close> arrives.
\<close>

theorem alert_gating_witness:
  "mAlertString (start argv_png_alert) = ''READY'' \<and> mCutyCapt (start argv_png_alert) \<and>
   singleShots (start argv_png_alert) = [] \<and>
   list_all (not_alert_nor_timeout ''READY'')
     [LoadFinished True, ContentsSizeChanged (1024, 768), JavaScriptAlert ''ready'',
      LoadFinished True] \<and>
   captures (exec [LoadFinished True, ContentsSizeChanged (1024, 768), JavaScriptAlert ''ready'',
                   LoadFinished True] (start argv_png_alert)) = [] \<and>
   singleShots (javaScriptAlert ''READY''
      (exec [LoadFinished True, ContentsSizeChanged (1024, 768), JavaScriptAlert ''ready'',
             LoadFinished True] (start argv_png_alert))) = [10] \<and>
   singleShots (javaScriptAlert ''ready''
      (exec [LoadFinished True, ContentsSizeChanged (1024, 768), JavaScriptAlert ''ready'',
             LoadFinished True] (start argv_png_alert))) = []"
proof -
  have v: "mAlertString (start argv_png_alert) = ''READY''" by code_simp
  then have h1: "mAlertString (start argv_png_alert) \<noteq> []" by simp
  have h2: "mCutyCapt (start argv_png_alert)" by code_simp
  have h3: "singleShots (start argv_png_alert) = []" by code_simp
  have h4: "\<forall>e \<in> set [LoadFinished True, ContentsSizeChanged (1024, 768),
      JavaScriptAlert ''ready'', LoadFinished True].
      not_alert_nor_timeout (mAlertString (start argv_png_alert)) e" by (simp add: v)
  have h5: "list_all (not_alert_nor_timeout ''READY'')
     [LoadFinished True, ContentsSizeChanged (1024, 768), JavaScriptAlert ''ready'',
      LoadFinished True]" by simp
  have c0: "captures (start argv_png_alert) = []" by code_simp
  from alert_gating [OF h1 h2 h3 h4, of "''READY''"] alert_gating [OF h1 h2 h3 h4, of "''ready''"]
    h2 h3 h5 v c0
  show ?thesis by simp
qed

text \<open>
  Claim C4, at the input where the code departs from it: with \<open>--silent\<close>, a print that
  the engine reports as failed ends the process with status 0.
\<close>

theorem pdfPrintFinish_silent_failure_exits_zero:
  "main strtol_c False argv_pdf_silent
     [LoadFinished True, JavaScriptResult 1024 768, PdfPrintingFinished False]
   = (Some 0, [SaveSnapshot PdfFormat (1024, 768)])"
  by code_simp

text \<open>
  Claim C5, as amended. An \<open>--out-format\<close> value that is none of the table's identifiers,
  read while no format has been resolved, makes \<open>main\<close> return \<open>EXIT_FAILURE\<close> with the
  help text before the page is loaded, whatever precedes and follows it on the command
  line. An output path that ends in none of the table's extensions, with no override,
  is not rejected: \<open>main\<close> goes on with \<open>OtherFormat\<close>, which the writer receives.
\<close>

theorem unresolved_format:
  "(v \<notin> set identifiers \<and> format (main_loop strtol pre main_locals0) = OtherFormat \<longrightarrow>
      main_init strtol grab (a0 # pre @ (''--out-format='' @ v) # post) = Inl EXIT_FAILURE) \<and>
   (\<not> has_known_extension p \<and> p \<noteq> [] \<longrightarrow>
      main_init strtol grab [a0, ''--url='' @ u, ''--out='' @ p]
        = Inr (main_setup grab (main_locals0\<lparr>argUrl := Some u, argOut := p\<rparr>)) \<and>
      mFormat (main_setup grab (main_locals0\<lparr>argUrl := Some u, argOut := p\<rparr>)) = OtherFormat)"
proof -
  have "main_init strtol grab (a0 # pre @ (''--out-format='' @ v) # post) = Inl EXIT_FAILURE"
    if "v \<notin> set identifiers" and "format (main_loop strtol pre main_locals0) = OtherFormat"
    using main_loop_out_format_unknown [OF that, of post] by (simp add: main_init_def)
  moreover have "main_init strtol grab [a0, ''--url='' @ u, ''--out='' @ p]
        = Inr (main_setup grab (main_locals0\<lparr>argUrl := Some u, argOut := p\<rparr>))"
    if "\<not> has_known_extension p" and "p \<noteq> []"
    using that main_init_unknown_extension [of p strtol grab a0 u]
    by (simp add: has_known_extension_def)
  moreover have
    "mFormat (main_setup grab (main_locals0\<lparr>argUrl := Some u, argOut := p\<rparr>)) = OtherFormat"
    by (simp add: main_setup_fields main_locals0_def)
  ultimately show ?thesis by blast
qed

text \<open>
  Runs of claim C5's amended statement: \<open>--out-format=bogus\<close> before any format is
  resolved ends in the help exit; \<open>--out=shot.xyz\<close> alone starts the event loop with
  \<open>OtherFormat\<close>.
\<close>

theorem unresolved_format_witness:
  "''bogus'' \<notin> set identifiers \<and>
   format (main_loop strtol_c [''--url=http://example.org/''] main_locals0) = OtherFormat \<and>
   main_init strtol_c False
     [''cutycapt'', ''--url=http://example.org/'', ''--out-format=bogus'', ''--out=shot.png'']
     = Inl EXIT_FAILURE \<and>
   \<not> has_known_extension ''shot.xyz'' \<and>
   main_init strtol_c False [''cutycapt'', ''--url=http://example.org/'', ''--out=shot.xyz'']
     = Inr (main_setup False
             (main_locals0\<lparr>argUrl := Some ''http://example.org/'', argOut := ''shot.xyz''\<rparr>)) \<and>
   mFormat (main_setup False
             (main_locals0\<lparr>argUrl := Some ''http://example.org/'', argOut := ''shot.xyz''\<rparr>))
     = OtherFormat"
proof -
  have h1: "''bogus'' \<notin> set identifiers" by (simp add: identifiers_def)
  have h2: "format (main_loop strtol_c [''--url=http://example.org/''] main_locals0) = OtherFormat"
    by code_simp
  have h3: "\<not> has_known_extension ''shot.xyz''" by code_simp
  have h4: "''shot.xyz'' \<noteq> []" by simp
  from unresolved_format [of "''bogus''" strtol_c "[''--url=http://example.org/'']" False
      "''cutycapt''" "[''--out=shot.png'']" "''shot.xyz''" "''http://example.org/''"]
    h1 h2 h3 h4
  show ?thesis by simp
qed

text \<open>
  Claim C5 as stated fails: the output path \<open>shot.xyz\<close> resolves to no format and there
  is no override, yet the run is not rejected; the page loads and the writer is invoked
  with \<open>OtherFormat\<close>.
\<close>

theorem unresolved_format_counterexample:
  "main strtol_c False argv_xyz [LoadFinished True, JavaScriptResult 1024 768]
   = (Some 0, [SaveSnapshot OtherFormat (1024, 768)])"
  by code_simp

text \<open>
  Claim C6, as amended. Take any run that starts with an empty view size and an empty
  widget, in which no probe answer is usable and no content size notification carries
  two positive sides (so that no size is ever stored). Whatever else is delivered, and
  whatever minimum size was configured, every invocation of the writer in that run
  uses the constant 800 by 600, and the timeout, when it is still pending, makes such an
  invocation. In general the size an invocation uses is the view size when that is not
  empty, else the widget's size when that is not empty, else 800 by 600.
\<close>

theorem geometry_fallback:
  assumes "QSize_isEmpty (widget_size s)" and "QSize_isEmpty (mViewSize s)"
    and "\<forall>e \<in> set evs. no_size_event e"
  shows "(\<exists>n. captures (exec evs s)
              = captures s @ replicate n (SaveSnapshot (mFormat s) (800, 600))) \<and>
         (mTimeoutTimer (exec evs s) \<longrightarrow>
            captures (dispatch TimerTimeout (exec evs s))
              = captures (exec evs s) @ [SaveSnapshot (mFormat s) (800, 600)]) \<and>
         mViewSize (saveSnapshot t) = final_size t"
proof -
  from assms(1,2) have "size_inv s"
    by (simp add: size_inv_def final_size_def)
  from exec_size_inv [OF this assms(3)]
  have inv: "size_inv (exec evs s)"
    and log: "\<exists>n. captures (exec evs s)
        = captures s @ replicate n (SaveSnapshot (mFormat s) (800, 600))"
    by simp_all
  have timeout: "captures (dispatch TimerTimeout (exec evs s))
      = captures (exec evs s) @ [SaveSnapshot (mFormat s) (800, 600)]"
    if "mTimeoutTimer (exec evs s)"
    using that inv
    by (auto simp add: dispatch_def Timeout_def ops_defs captures_def saveSnapshot_eq
          writer_call_not_marker size_inv_def final_size_def exec_mFormat split: if_splits)
  have chain: "mViewSize (saveSnapshot t) = final_size t"
    by (simp add: saveSnapshot_eq)
  from log timeout chain show ?thesis by blast
qed

text \<open>
  A run of claim C6's amended statement: with \<open>--min-width=0\<close> the widget is 0 by 600;
  the load finishes, the probe answers 0 by 0, an empty content size is notified, and
  the timeout captures with 800 by 600.
\<close>

theorem geometry_fallback_witness:
  "QSize_isEmpty (widget_size (start argv_png_min_width_0)) \<and>
   QSize_isEmpty (mViewSize (start argv_png_min_width_0)) \<and>
   list_all no_size_event
     [LoadFinished True, JavaScriptResult 0 0, ContentsSizeChanged (0, 0), TimerTimeout] \<and>
   mTimeoutTimer (exec [LoadFinished True, JavaScriptResult 0 0, ContentsSizeChanged (0, 0)]
                    (start argv_png_min_width_0)) \<and>
   captures (exec [LoadFinished True, JavaScriptResult 0 0, ContentsSizeChanged (0, 0),
                   TimerTimeout] (start argv_png_min_width_0))
     = [SaveSnapshot PngFormat (800, 600)]"
proof -
  let ?evs = "[LoadFinished True, JavaScriptResult 0 0, ContentsSizeChanged (0, 0)]"
  have h1: "QSize_isEmpty (widget_size (start argv_png_min_width_0))" by code_simp
  have h2: "QSize_isEmpty (mViewSize (start argv_png_min_width_0))" by code_simp
  have h3: "\<forall>e \<in> set ?evs. no_size_event e" by simp
  have h4: "list_all no_size_event
     [LoadFinished True, JavaScriptResult 0 0, ContentsSizeChanged (0, 0), TimerTimeout]"
    by simp
  have f: "mFormat (start argv_png_min_width_0) = PngFormat" by code_simp
  have before: "captures (exec ?evs (start argv_png_min_width_0)) = []"
    by code_simp
  have t: "mTimeoutTimer (exec ?evs (start argv_png_min_width_0))"
    by code_simp
  from geometry_fallback [OF h1 h2 h3] t before f h1 h2 h4
  show ?thesis by simp
qed

text \<open>
  Claim C6 as stated fails: with \<open>--min-width=0\<close> the configured minimum is 0 by 600 and
  the widget's size is empty; the probe answers 0 by 0, the timeout captures, and the
  size used is 800 by 600, not the configured minimum.
\<close>

theorem geometry_fallback_counterexample:
  "argSize (main_loop strtol_c (tl argv_png_min_width_0) main_locals0) = (0, 600) \<and>
   QSize_isEmpty (widget_size (exec [LoadFinished True, JavaScriptResult 0 0]
                                 (start argv_png_min_width_0))) \<and>
   main strtol_c False argv_png_min_width_0 [LoadFinished True, JavaScriptResult 0 0, TimerTimeout]
     = (Some 0, [SaveSnapshot PngFormat (800, 600)])"
  by code_simp

text \<open>
  Claim C7, as amended. Without an expected alert string the readiness test is made in
  one place, the callback of the size probe. A successful load marks the document
  complete and requests the probe, without capturing or arming a timer. When the
  probe's answer is delivered with the document complete, and the answer is usable or
  the widget is not empty (so that the geometry is known): with a positive delay one
  one-shot timer of exactly that delay is armed and the writer is not invoked, and it
  is invoked when that timer fires; otherwise (the delay is zero) the writer is invoked
  in that callback and no timer is armed. A content size notification, which also
  marks the geometry known, neither captures nor arms a timer nor requests a probe.
\<close>

theorem delay_sub_protocol:
  assumes "mAlertString s = []"
  shows "mSawDocumentComplete (dispatch (LoadFinished True) s) \<and>
         jsPending (dispatch (LoadFinished True) s) = Suc (jsPending s) \<and>
         captures (dispatch (LoadFinished True) s) = captures s \<and>
         singleShots (dispatch (LoadFinished True) s) = singleShots s \<and>
         (mSawDocumentComplete s \<and> 0 < jsPending s \<and>
          ((0 < w \<and> 0 < h) \<or> \<not> QSize_isEmpty (widget_size s)) \<longrightarrow>
            (if 0 < mDelay s
             then singleShots (dispatch (JavaScriptResult w h) s) = singleShots s @ [mDelay s] \<and>
                  captures (dispatch (JavaScriptResult w h) s) = captures s \<and>
                  exitCode (dispatch (JavaScriptResult w h) s) = exitCode s \<and>
                  length (captures (dispatch (SingleShotTimeout (length (singleShots s)))
                                      (dispatch (JavaScriptResult w h) s)))
                    = Suc (length (captures s))
             else length (captures (dispatch (JavaScriptResult w h) s))
                    = Suc (length (captures s)) \<and>
                  singleShots (dispatch (JavaScriptResult w h) s) = singleShots s)) \<and>
         captures (dispatch (ContentsSizeChanged sz) s) = captures s \<and>
         singleShots (dispatch (ContentsSizeChanged sz) s) = singleShots s \<and>
         jsPending (dispatch (ContentsSizeChanged sz) s) = jsPending s"
proof -
  have load: "mSawDocumentComplete (dispatch (LoadFinished True) s) \<and>
         jsPending (dispatch (LoadFinished True) s) = Suc (jsPending s) \<and>
         captures (dispatch (LoadFinished True) s) = captures s \<and>
         singleShots (dispatch (LoadFinished True) s) = singleShots s"
    using assms
    by (simp add: dispatch_def DocumentComplete_def updateViewportToContentThenMaybeCapture_def
          ops_defs captures_def Let_def)
  have probe: "if 0 < mDelay s
             then singleShots (dispatch (JavaScriptResult w h) s) = singleShots s @ [mDelay s] \<and>
                  captures (dispatch (JavaScriptResult w h) s) = captures s \<and>
                  exitCode (dispatch (JavaScriptResult w h) s) = exitCode s \<and>
                  length (captures (dispatch (SingleShotTimeout (length (singleShots s)))
                                      (dispatch (JavaScriptResult w h) s)))
                    = Suc (length (captures s))
             else length (captures (dispatch (JavaScriptResult w h) s))
                    = Suc (length (captures s)) \<and>
                  singleShots (dispatch (JavaScriptResult w h) s) = singleShots s"
    if "mSawDocumentComplete s" and "0 < jsPending s"
      and "(0 < w \<and> 0 < h) \<or> \<not> QSize_isEmpty (widget_size s)"
    using assms that
    by (auto simp add: runJavaScript_callback_def TryDelayedRender_def setMinimumSize_def
          resize_def ops_defs captures_def saveSnapshot_eq writer_call_not_marker
          dispatch_def Delayed_def Let_def)
  have hint: "captures (dispatch (ContentsSizeChanged sz) s) = captures s \<and>
         singleShots (dispatch (ContentsSizeChanged sz) s) = singleShots s \<and>
         jsPending (dispatch (ContentsSizeChanged sz) s) = jsPending s"
    by (simp add: dispatch_def onContentsSizeChanged_def ops_defs captures_def Let_def)
  from load probe hint show ?thesis by blast
qed

text \<open>
  Runs of claim C7's amended statement: the load finishes and the probe answers 1024 by
  768, once with no delay and once with \<open>--delay=500\<close>.
\<close>

theorem delay_sub_protocol_witness:
  "mAlertString (start argv_png) = [] \<and>
   mDelay (start argv_png) = 0 \<and>
   captures (dispatch (LoadFinished True) (start argv_png)) = [] \<and>
   length (captures (dispatch (JavaScriptResult 1024 768)
                       (dispatch (LoadFinished True) (start argv_png)))) = 1 \<and>
   mAlertString (start argv_png_delay) = [] \<and>
   mDelay (start argv_png_delay) = 500 \<and>
   singleShots (dispatch (JavaScriptResult 1024 768)
                  (dispatch (LoadFinished True) (start argv_png_delay))) = [500] \<and>
   captures (dispatch (JavaScriptResult 1024 768)
               (dispatch (LoadFinished True) (start argv_png_delay))) = [] \<and>
   length (captures (dispatch (SingleShotTimeout 0)
      (dispatch (JavaScriptResult 1024 768)
         (dispatch (LoadFinished True) (start argv_png_delay))))) = 1"
proof -
  let ?s = "dispatch (LoadFinished True) (start argv_png)"
  let ?d = "dispatch (LoadFinished True) (start argv_png_delay)"
  have s0: "mAlertString (start argv_png) = []" "mDelay (start argv_png) = 0"
    "captures (start argv_png) = []" "singleShots (start argv_png) = []"
    by code_simp+
  have d0: "mAlertString (start argv_png_delay) = []" "mDelay (start argv_png_delay) = 500"
    "captures (start argv_png_delay) = []" "singleShots (start argv_png_delay) = []"
    by code_simp+
  have s: "mAlertString ?s = []" "mDelay ?s = 0"
    by code_simp+
  have d: "mAlertString ?d = []" "mDelay ?d = 500"
    by code_simp+
  have g: "(0 < (1024::int) \<and> 0 < (768::int)) \<or> \<not> QSize_isEmpty (widget_size x)" for x
    by simp
  note ls = delay_sub_protocol [OF s0(1), of 0 0 "(0, 0)"]
  note ld = delay_sub_protocol [OF d0(1), of 0 0 "(0, 0)"]
  note ps = delay_sub_protocol [OF s(1), of 1024 768 "(0, 0)"]
  note pd = delay_sub_protocol [OF d(1), of 1024 768 "(0, 0)"]
  from ls ld ps pd s0 d0 s d g show ?thesis by simp
qed

text \<open>
  Claim C7 as stated fails: with \<open>--min-width=0\<close> and no delay, the load finishes, the
  probe answers 0 by 0 and a content size of 1024 by 768 is notified. Both flags then
  hold and there is no alert string, yet nothing has been captured, no timer is armed
  and no probe is outstanding.
\<close>

theorem delay_sub_protocol_counterexample:
  "mAlertString (exec [LoadFinished True, JavaScriptResult 0 0, ContentsSizeChanged (1024, 768)]
                   (start argv_png_min_width_0)) = [] \<and>
   mSawDocumentComplete (exec [LoadFinished True, JavaScriptResult 0 0,
                   ContentsSizeChanged (1024, 768)] (start argv_png_min_width_0)) \<and>
   mSawGeometryChange (exec [LoadFinished True, JavaScriptResult 0 0,
                   ContentsSizeChanged (1024, 768)] (start argv_png_min_width_0)) \<and>
   mDelay (exec [LoadFinished True, JavaScriptResult 0 0, ContentsSizeChanged (1024, 768)]
             (start argv_png_min_width_0)) = 0 \<and>
   captures (exec [LoadFinished True, JavaScriptResult 0 0, ContentsSizeChanged (1024, 768)]
               (start argv_png_min_width_0)) = [] \<and>
   singleShots (exec [LoadFinished True, JavaScriptResult 0 0, ContentsSizeChanged (1024, 768)]
                  (start argv_png_min_width_0)) = [] \<and>
   jsPending (exec [LoadFinished True, JavaScriptResult 0 0, ContentsSizeChanged (1024, 768)]
                (start argv_png_min_width_0)) = 0"
  by code_simp

text \<open>
  Claim C8. In the plain-text and in the HTML format, when the completion of the
  extraction cannot open the target file, it writes nothing and still quits the
  application with status 0; the status is 0 whether or not the file opens.
\<close>

theorem text_write_failure_exits_zero:
  assumes "mFormat s = InnerTextFormat \<or> mFormat s = HtmlFormat"
  shows "exitCode (dispatch (if mFormat s = InnerTextFormat then PlainTextResult r opens
                             else HtmlResult r opens) (saveSnapshot s)) = Some 0 \<and>
         effects (dispatch (if mFormat s = InnerTextFormat then PlainTextResult r False
                            else HtmlResult r False) (saveSnapshot s))
           = effects (saveSnapshot s)"
  using assms
  by (auto simp add: dispatch_def saveSnapshot_eq text_callback_def ops_defs
        split: list.splits)

text \<open>
  Runs of claim C8: text and HTML output, the timeout captures, and the file cannot be
  opened when the content arrives.
\<close>

theorem text_write_failure_exits_zero_witness:
  "mFormat (start argv_txt) = InnerTextFormat \<and>
   exitCode (dispatch (PlainTextResult ''body'' False) (saveSnapshot (start argv_txt))) = Some 0 \<and>
   mFormat (start argv_html) = HtmlFormat \<and>
   exitCode (dispatch (HtmlResult ''body'' False) (saveSnapshot (start argv_html))) = Some 0"
proof -
  have t: "mFormat (start argv_txt) = InnerTextFormat" by code_simp
  have h: "mFormat (start argv_html) = HtmlFormat" by code_simp
  from text_write_failure_exits_zero [of "start argv_txt" "''body''" False]
    text_write_failure_exits_zero [of "start argv_html" "''body''" False] t h
  show ?thesis by simp
qed

text \<open>
  Claim C9. Every confirmation dialog is answered \<open>true\<close>; every prompt dialog is
  answered \<open>true\<close> with the result set to the empty string (nothing is stored when no
  result is asked for), whatever the message and the default value.
\<close>

theorem script_dialogs_answered:
  "javaScriptConfirm msg = True \<and>
   javaScriptPrompt msg defaultValue (Some old) = (True, Some []) \<and>
   javaScriptPrompt msg defaultValue None = (True, None)"
  by (simp add: javaScriptConfirm_def javaScriptPrompt_def)

text \<open>
  Claim C10. A certificate error is accepted exactly when the engine page's insecure
  flag is set and the error is overridable; in every other case the handler takes no
  action. The flag is the \<open>--insecure\<close> argument as \<open>main\<close> passes it on.
\<close>

theorem certificate_accepted_iff:
  "(handleCertificateError isOverridable s = AcceptCertificate)
     = (page_mInsecure s \<and> isOverridable) \<and>
   (handleCertificateError isOverridable s = NoAction)
     = (\<not> (page_mInsecure s \<and> isOverridable)) \<and>
   page_mInsecure (main_setup grab a) = argInsecure a"
  by (simp add: handleCertificateError_def main_setup_fields)

text \<open>
  Runs of claim C10: with \<open>--insecure\<close> an overridable error is accepted and another is
  not; without the flag no error is accepted.
\<close>

theorem certificate_accepted_iff_witness:
  "handleCertificateError True (start argv_png_insecure) = AcceptCertificate \<and>
   handleCertificateError False (start argv_png_insecure) = NoAction \<and>
   handleCertificateError True (start argv_png) = NoAction"
proof -
  have i: "page_mInsecure (start argv_png_insecure)" by code_simp
  have n: "\<not> page_mInsecure (start argv_png)" by code_simp
  from certificate_accepted_iff [of True "start argv_png_insecure"]
    certificate_accepted_iff [of False "start argv_png_insecure"]
    certificate_accepted_iff [of True "start argv_png"] i n
  show ?thesis by simp
qed

end
